theory Spec2Isabelle
  imports Complex_Main
begin

section \<open>Values, arrays and errors\<close>

text \<open>
  The module \<^verbatim>\<open>gala/potential/potential/builtin/pybuiltin.py\<close> holds two classes,
  \<^verbatim>\<open>HarmonicOscillatorPotential\<close> and \<^verbatim>\<open>KuzminPotential\<close>, whose methods are
  formulas over numpy arrays. Finite numbers are modelled as exact reals (rounding and
  overflow of binary floating point are not part of the model). The one operation of
  the module that leaves the finite numbers on finite operands is the division in
  \<^verbatim>\<open>KuzminPotential\<close>: numpy does not raise on a zero divisor, it returns an
  infinity or a NaN. That branch is written out in \<open>np_divide\<close>. Two properties of the
  methods depend on rounding, underflow and overflow; for them the section on binary64
  arithmetic gives the same methods with every operation rounded as numpy rounds it.
\<close>

datatype error = KeyError | TypeError | ValueError

text \<open>What a numpy division can return: a finite number, an infinity, or NaN.\<close>

datatype np_float = Finite real | PosInf | NegInf | NaN

text \<open>
  \<^verbatim>\<open>n / d\<close> on numpy floats, for finite \<open>n\<close> and \<open>d\<close>. Every divisor of the
  module is a square root or a power of a sum of squares, so a zero divisor is the
  positive zero and the sign of the quotient is the sign of the numerator.
\<close>

definition np_divide :: "real \<Rightarrow> real \<Rightarrow> np_float" where
  "np_divide n d =
     (if d \<noteq> 0 then Finite (n / d)
      else if 0 < n then PosInf
      else if n < 0 then NegInf
      else NaN)"

text \<open>\<^verbatim>\<open>f * v\<close> for a quotient \<open>f\<close> and a finite \<open>v\<close>.\<close>

fun np_multiply :: "np_float \<Rightarrow> real \<Rightarrow> np_float" where
  "np_multiply (Finite f) v = Finite (f * v)"
| "np_multiply PosInf v = (if 0 < v then PosInf else if v < 0 then NegInf else NaN)"
| "np_multiply NegInf v = (if 0 < v then NegInf else if v < 0 then PosInf else NaN)"
| "np_multiply NaN v = NaN"

text \<open>Unary minus on such a value.\<close>

fun np_negative :: "np_float \<Rightarrow> np_float" where
  "np_negative (Finite f) = Finite (- f)"
| "np_negative PosInf = NegInf"
| "np_negative NegInf = PosInf"
| "np_negative NaN = NaN"

text \<open>
  The value of the parameter \<^verbatim>\<open>omega\<close>: a scalar (a 0-d array) or a sequence
  (a 1-d array). Units are not modelled, so \<^verbatim>\<open>.value\<close> is the identity.
\<close>

datatype ndarray = Scalar real | Vector "real list"

text \<open>\<^verbatim>\<open>np.atleast_1d\<close>: a scalar becomes a sequence of one element, a sequence is kept.\<close>

fun atleast_1d :: "ndarray \<Rightarrow> real list" where
  "atleast_1d (Scalar v) = [v]"
| "atleast_1d (Vector vs) = vs"

text \<open>Python's \<^verbatim>\<open>len\<close>: the length of the first axis; a 0-d array has none.\<close>

fun len :: "ndarray \<Rightarrow> error + nat" where
  "len (Scalar v) = Inl TypeError"
| "len (Vector vs) = Inr (length vs)"

text \<open>
  A 2-d array \<^verbatim>\<open>q\<close>: its rows along axis 0 and the length of axis 1. The length of
  axis 1 is kept apart from the rows because an array with no rows still has one.
  \<open>wf_ndarray2\<close> says that the array is rectangular, which every numpy array is.
\<close>

record ndarray2 =
  ncols :: nat
  rows :: "real list list"

definition wf_ndarray2 :: "ndarray2 \<Rightarrow> bool" where
  "wf_ndarray2 q = (\<forall>r \<in> set (rows q). length r = ncols q)"

text \<open>
  What the methods read of an instance of \<^verbatim>\<open>PotentialBase\<close>: the dictionary
  \<^verbatim>\<open>self.parameters\<close>, the gravitational constant \<^verbatim>\<open>self.G\<close> and
  \<^verbatim>\<open>self.ndim\<close>. The parameter values are sequences or scalars for the harmonic
  oscillator and scalars for the Kuzmin potential.
\<close>

record 'v PotentialBase =
  parameters :: "string \<rightharpoonup> 'v"
  G :: real
  ndim :: nat

section \<open>HarmonicOscillatorPotential\<close>

text \<open>
  Modelled from the spec: \<^verbatim>\<open>PotentialBase._setup_potential\<close> is defined in
  \<^verbatim>\<open>..core\<close>, which is not among the source files. By section 6 of the
  specification it stores the declared parameters as \<^verbatim>\<open>self.parameters[name]\<close>.
\<close>

definition PotentialBase_setup_potential ::
    "'v PotentialBase \<Rightarrow> (string \<rightharpoonup> 'v) \<Rightarrow> 'v PotentialBase" where
  "PotentialBase_setup_potential self ps = self\<lparr>parameters := ps\<rparr>"

text \<open>
  \<^verbatim>\<open>
  def _setup_potential(self, parameters, origin=None, R=None, units=None):
      super()._setup_potential(parameters, origin=origin, R=R, units=units)
      self.parameters['omega'] = np.atleast_1d(self.parameters['omega'])
      self.ndim = len(self.parameters['omega'])
  \<close>
\<close>

definition HarmonicOscillatorPotential_setup_potential ::
    "ndarray PotentialBase \<Rightarrow> (string \<rightharpoonup> ndarray) \<Rightarrow> error + ndarray PotentialBase" where
  "HarmonicOscillatorPotential_setup_potential self ps =
     (let self1 = PotentialBase_setup_potential self ps in
      case parameters self1 ''omega'' of
        None \<Rightarrow> Inl KeyError
      | Some v \<Rightarrow>
          let self2 = self1\<lparr>parameters := (parameters self1)(''omega'' \<mapsto> Vector (atleast_1d v))\<rparr> in
          (case parameters self2 ''omega'' of
             None \<Rightarrow> Inl KeyError
           | Some w \<Rightarrow>
               (case len w of
                  Inl e \<Rightarrow> Inl e
                | Inr n \<Rightarrow> Inr (self2\<lparr>ndim := n\<rparr>))))"

text \<open>
  \<^verbatim>\<open>a * b\<close> for \<open>a\<close> of shape \<open>(1, n)\<close> (written as its one row) and \<open>b\<close> of shape
  \<open>(N, k)\<close>, by numpy's broadcasting: the lengths \<open>n\<close> and \<open>k\<close> are equal, or one of
  them is 1 and is stretched; anything else is a shape error.
\<close>

definition broadcast_multiply :: "real list \<Rightarrow> ndarray2 \<Rightarrow> error + ndarray2" where
  "broadcast_multiply a b =
     (if length a = ncols b then
        Inr \<lparr>ncols = ncols b, rows = map (\<lambda>r. map (\<lambda>i. a ! i * r ! i) [0..<ncols b]) (rows b)\<rparr>
      else if length a = 1 then
        Inr \<lparr>ncols = ncols b, rows = map (\<lambda>r. map (\<lambda>i. a ! 0 * r ! i) [0..<ncols b]) (rows b)\<rparr>
      else if ncols b = 1 then
        Inr \<lparr>ncols = length a, rows = map (\<lambda>r. map (\<lambda>i. a ! i * r ! 0) [0..<length a]) (rows b)\<rparr>
      else Inl ValueError)"

text \<open>
  \<^verbatim>\<open>
  def _energy(self, q, t=0.):
      om = np.atleast_1d(self.parameters['omega'].value)
      return np.sum(0.5 * om[None]**2 * q**2, axis=1)
  \<close>
\<close>

definition HarmonicOscillatorPotential_energy ::
    "ndarray PotentialBase \<Rightarrow> ndarray2 \<Rightarrow> real \<Rightarrow> error + real list" where
  "HarmonicOscillatorPotential_energy self q t =
     (case parameters self ''omega'' of
        None \<Rightarrow> Inl KeyError
      | Some v \<Rightarrow>
          let om = atleast_1d v in
          (case broadcast_multiply (map (\<lambda>w. 0.5 * w\<^sup>2) om)
                  (q\<lparr>rows := map (map (\<lambda>x. x\<^sup>2)) (rows q)\<rparr>) of
             Inl e \<Rightarrow> Inl e
           | Inr p \<Rightarrow> Inr (map sum_list (rows p))))"


text \<open>
  \<^verbatim>\<open>
  def _hessian(self, q, t=0.):
      om = np.atleast_1d(self.parameters['omega'].value)
      return np.tile(np.diag(om)[:, :, None], reps=(1, 1, q.shape[0]))
  \<close>
  \<^verbatim>\<open>np.diag(om)\<close> is the square matrix with \<open>om\<close> on its diagonal and zeros
  elsewhere; the tiling repeats each entry \<^verbatim>\<open>q.shape[0]\<close> times along a new last
  axis. The result is indexed \<open>h ! i ! j ! k\<close>: row, column, sample.
\<close>

definition np_diag :: "real list \<Rightarrow> real list list" where
  "np_diag om =
     map (\<lambda>i. map (\<lambda>j. if i = j then om ! i else 0) [0..<length om]) [0..<length om]"

definition HarmonicOscillatorPotential_hessian ::
    "ndarray PotentialBase \<Rightarrow> ndarray2 \<Rightarrow> real \<Rightarrow> error + real list list list" where
  "HarmonicOscillatorPotential_hessian self q t =
     (case parameters self ''omega'' of
        None \<Rightarrow> Inl KeyError
      | Some v \<Rightarrow>
          let om = atleast_1d v in
          Inr (map (map (\<lambda>d. replicate (length (rows q)) d)) (np_diag om)))"

section \<open>KuzminPotential\<close>

text \<open>
  Here \<^verbatim>\<open>q\<close> has the shape \<open>(3, N)\<close>: the rows are the coordinates \<open>x\<close>, \<open>y\<close>, \<open>z\<close>
  and the columns are the samples, so a single sample is a batch with \<open>N = 1\<close>.
  \<^verbatim>\<open>x, y, z = q\<close> unpacks along axis 0: the array must have exactly three rows.
\<close>

definition unpack3 :: "ndarray2 \<Rightarrow> error + (real list \<times> real list \<times> real list)" where
  "unpack3 q =
     (case rows q of
        [x, y, z] \<Rightarrow> Inr (x, y, z)
      | _ \<Rightarrow> Inl ValueError)"

text \<open>The sum \<^verbatim>\<open>x**2 + y**2 + (a + np.abs(z))**2\<close> of one sample.\<close>

definition Kuzmin_r2 :: "real \<Rightarrow> real \<Rightarrow> real \<Rightarrow> real \<Rightarrow> real" where
  "Kuzmin_r2 a x y z = x\<^sup>2 + y\<^sup>2 + (a + \<bar>z\<bar>)\<^sup>2"

text \<open>
  \<^verbatim>\<open>
  def _energy(self, q, t):
      x, y, z = q
      m = self.parameters['m']
      a = self.parameters['a']
      val = -self.G * m / np.sqrt(x**2 + y**2 + (a + np.abs(z))**2)
      return val
  \<close>
  The arithmetic is elementwise over the samples \<open>k < ncols q\<close>.
\<close>

definition KuzminPotential_energy ::
    "real PotentialBase \<Rightarrow> ndarray2 \<Rightarrow> real \<Rightarrow> error + np_float list" where
  "KuzminPotential_energy self q t =
     (case unpack3 q of
        Inl e \<Rightarrow> Inl e
      | Inr (x, y, z) \<Rightarrow>
          (case parameters self ''m'' of
             None \<Rightarrow> Inl KeyError
           | Some m \<Rightarrow>
               (case parameters self ''a'' of
                  None \<Rightarrow> Inl KeyError
                | Some a \<Rightarrow>
                    Inr (map (\<lambda>k. np_divide (- G self * m)
                                  (sqrt (Kuzmin_r2 a (x ! k) (y ! k) (z ! k))))
                           [0..<ncols q]))))"

text \<open>
  \<^verbatim>\<open>
  def _gradient(self, q, t):
      x, y, z = q
      m = self.parameters['m']
      a = self.parameters['a']
      fac = self.G * m / (x**2 + y**2 + (a + np.abs(z))**2)**1.5
      return fac[None, ...] * q
  \<close>
  \<open>KuzminPotential_fac\<close> is the local \<^verbatim>\<open>fac\<close>, one factor per sample; the
  result has the three rows of \<^verbatim>\<open>q\<close>, each multiplied elementwise by \<^verbatim>\<open>fac\<close>.
\<close>

definition KuzminPotential_fac ::
    "real PotentialBase \<Rightarrow> ndarray2 \<Rightarrow> error + np_float list" where
  "KuzminPotential_fac self q =
     (case unpack3 q of
        Inl e \<Rightarrow> Inl e
      | Inr (x, y, z) \<Rightarrow>
          (case parameters self ''m'' of
             None \<Rightarrow> Inl KeyError
           | Some m \<Rightarrow>
               (case parameters self ''a'' of
                  None \<Rightarrow> Inl KeyError
                | Some a \<Rightarrow>
                    Inr (map (\<lambda>k. np_divide (G self * m)
                                  (Kuzmin_r2 a (x ! k) (y ! k) (z ! k) powr 1.5))
                           [0..<ncols q]))))"

definition KuzminPotential_gradient ::
    "real PotentialBase \<Rightarrow> ndarray2 \<Rightarrow> real \<Rightarrow> error + np_float list list" where
  "KuzminPotential_gradient self q t =
     (case KuzminPotential_fac self q of
        Inl e \<Rightarrow> Inl e
      | Inr fac \<Rightarrow>
          Inr (map (\<lambda>r. map (\<lambda>k. np_multiply (fac ! k) (r ! k)) [0..<ncols q]) (rows q)))"

text \<open>
  The energy of the single sample \<open>(x, y, z)\<close> as a real number, for statements about
  its derivatives: the one entry that \<^verbatim>\<open>_energy\<close> returns on the batch holding that
  sample when the entry is finite, and 0 otherwise.
\<close>

definition KuzminPotential_energy_value :: "real PotentialBase \<Rightarrow> real \<Rightarrow> real \<Rightarrow> real \<Rightarrow> real" where
  "KuzminPotential_energy_value self x y z =
     (case KuzminPotential_energy self \<lparr>ncols = 1, rows = [[x], [y], [z]]\<rparr> 0 of
        Inr [Finite e] \<Rightarrow> e
      | _ \<Rightarrow> 0)"

section \<open>The methods in binary64 arithmetic\<close>

text \<open>
  numpy computes in IEEE 754 binary64. \<open>round64\<close> rounds a real number to the nearest
  binary64 number, ties to the even significand: \<open>ulp64 x\<close> is the spacing of the
  binary64 numbers at the magnitude of \<open>x\<close> (53 significant bits, least exponent
  \<open>-1022\<close>, so \<open>2 powr (-1074)\<close> in the subnormal range), \<open>rne\<close> rounds to the nearest
  integer, ties to even, and a result of magnitude \<open>2 powr 1024\<close> or more is an infinity.
  The two zeros of binary64 are not told apart: \<open>Finite 0\<close> stands for both, and neither
  is less than or greater than zero.
\<close>

definition rne :: "real \<Rightarrow> int" where
  "rne y =
     (let f = \<lfloor>y\<rfloor>; d = y - of_int f in
      if d < 1 / 2 then f
      else if 1 / 2 < d then f + 1
      else if even f then f else f + 1)"

definition ulp64 :: "real \<Rightarrow> real" where
  "ulp64 x =
     (if x = 0 then 2 powr (- 1074)
      else 2 powr (of_int (max \<lfloor>log 2 \<bar>x\<bar>\<rfloor> (- 1022)) - 52))"

definition round64 :: "real \<Rightarrow> np_float" where
  "round64 x =
     (let r = of_int (rne (x / ulp64 x)) * ulp64 x in
      if 2 powr 1024 \<le> r then PosInf
      else if r \<le> - (2 powr 1024) then NegInf
      else Finite r)"


fun float64_multiply :: "np_float \<Rightarrow> np_float \<Rightarrow> np_float" where
  "float64_multiply (Finite a) (Finite b) = round64 (a * b)"
| "float64_multiply (Finite a) PosInf = (if 0 < a then PosInf else if a < 0 then NegInf else NaN)"
| "float64_multiply (Finite a) NegInf = (if 0 < a then NegInf else if a < 0 then PosInf else NaN)"
| "float64_multiply PosInf (Finite b) = (if 0 < b then PosInf else if b < 0 then NegInf else NaN)"
| "float64_multiply NegInf (Finite b) = (if 0 < b then NegInf else if b < 0 then PosInf else NaN)"
| "float64_multiply PosInf PosInf = PosInf"
| "float64_multiply PosInf NegInf = NegInf"
| "float64_multiply NegInf PosInf = NegInf"
| "float64_multiply NegInf NegInf = PosInf"
| "float64_multiply NaN v = NaN"
| "float64_multiply v NaN = NaN"





text \<open>The values that are not negative, and those that are not positive; NaN is neither.\<close>

fun float64_nonneg :: "np_float \<Rightarrow> bool" where
  "float64_nonneg (Finite a) = (0 \<le> a)"
| "float64_nonneg PosInf = True"
| "float64_nonneg NegInf = False"
| "float64_nonneg NaN = False"






definition HarmonicOscillatorPotential_energy_term :: "real \<Rightarrow> real \<Rightarrow> np_float" where
  "HarmonicOscillatorPotential_energy_term w x =
     float64_multiply (float64_multiply (Finite 0.5) (float64_multiply (Finite w) (Finite w)))
       (float64_multiply (Finite x) (Finite x))"




section \<open>Properties of HarmonicOscillatorPotential\<close>

lemma sum_list_upt_sum: "sum_list (map f [0..<n]) = (\<Sum>i<n. f i)"
  by (simp add: interv_sum_list_conv_sum_set_nat atLeast0LessThan)

text \<open>
  What \<^verbatim>\<open>_energy\<close> and \<^verbatim>\<open>_gradient\<close> return when the frequency vector has as many
  entries as the batch has columns: no broadcasting stretches anything.
\<close>

lemma HarmonicOscillatorPotential_energy_rows:
  assumes "parameters self ''omega'' = Some v"
    and "length (atleast_1d v) = ncols q"
    and "wf_ndarray2 q"
  shows "HarmonicOscillatorPotential_energy self q t =
           Inr (map (\<lambda>x. \<Sum>i<ncols q. 0.5 * (atleast_1d v ! i)\<^sup>2 * (x ! i)\<^sup>2) (rows q))"
proof -
  have row: "sum_list (map (\<lambda>i. map (\<lambda>w. 0.5 * w\<^sup>2) (atleast_1d v) ! i * map (\<lambda>x. x\<^sup>2) r ! i) [0..<ncols q])
           = (\<Sum>i<ncols q. 0.5 * (atleast_1d v ! i)\<^sup>2 * (r ! i)\<^sup>2)"
    if "r \<in> set (rows q)" for r
  proof -
    have "length r = ncols q" using that assms(3) by (simp add: wf_ndarray2_def)
    then show ?thesis using assms(2) by (simp add: sum_list_upt_sum)
  qed
  show ?thesis
    using assms(1,2) row
    by (simp add: HarmonicOscillatorPotential_energy_def broadcast_multiply_def comp_def)
qed






text \<open>
  Read in exact real arithmetic, every value returned by \<^verbatim>\<open>_energy(q, t)\<close> is
  nonnegative, and the value of a sample \<open>x\<close> is zero exactly when \<open>om\<^sub>i * x\<^sub>i = 0\<close> on every
  axis \<open>i\<close>. What holds of the binary64 computation is stated in the section on binary64
  arithmetic below.
\<close>

lemma HarmonicOscillatorPotential_energy_exact_nonneg:
  assumes "parameters self ''omega'' = Some (Vector om)"
    and "length om = ndim self"
    and "ncols q = ndim self"
    and "wf_ndarray2 q"
  shows "\<exists>es. HarmonicOscillatorPotential_energy self q t = Inr es
           \<and> length es = length (rows q)
           \<and> (\<forall>k<length (rows q). 0 \<le> es ! k
                 \<and> (es ! k = 0 \<longleftrightarrow> (\<forall>i<ndim self. om ! i * rows q ! k ! i = 0)))"
proof -
  let ?e = "\<lambda>x. \<Sum>i<ndim self. 0.5 * (om ! i)\<^sup>2 * (x ! i)\<^sup>2"
  have eq: "HarmonicOscillatorPotential_energy self q t = Inr (map ?e (rows q))"
    using HarmonicOscillatorPotential_energy_rows [of self "Vector om" q t] assms by simp
  have nonneg: "0 \<le> ?e x" for x :: "real list"
    by (intro sum_nonneg) simp
  have zero: "?e x = 0 \<longleftrightarrow> (\<forall>i<ndim self. om ! i * x ! i = 0)" for x :: "real list"
  proof -
    have "?e x = 0 \<longleftrightarrow> (\<forall>i\<in>{..<ndim self}. 0.5 * (om ! i)\<^sup>2 * (x ! i)\<^sup>2 = 0)"
      by (intro sum_nonneg_eq_0_iff) simp_all
    then show ?thesis by auto
  qed
  show ?thesis
    using eq nonneg zero by simp
qed

text \<open>
  What \<^verbatim>\<open>_hessian\<close> returns: an \<open>n \<times> n \<times> N\<close> array (\<open>n\<close> the length of \<open>om\<close>, \<open>N\<close> the
  number of rows of \<open>q\<close>) whose entry \<open>(i, j)\<close> is, for every sample, \<open>om\<^sub>i\<close> on the
  diagonal and 0 off it. It depends neither on the values in \<open>q\<close> nor on \<open>t\<close>.
\<close>

lemma HarmonicOscillatorPotential_hessian_entries:
  assumes "parameters self ''omega'' = Some (Vector om)"
  shows "\<exists>h. HarmonicOscillatorPotential_hessian self q t = Inr h
          \<and> length h = length om
          \<and> (\<forall>i<length om. length (h ! i) = length om
               \<and> (\<forall>j<length om. h ! i ! j = replicate (length (rows q)) (if i = j then om ! i else 0)))"
  using assms by (simp add: HarmonicOscillatorPotential_hessian_def np_diag_def)

text \<open>
  Claim C1 says that the diagonal entries of the matrix returned by \<^verbatim>\<open>_hessian\<close> are
  \<open>om\<^sub>i\<^sup>2\<close>. The method builds \<^verbatim>\<open>np.diag(om)\<close>, without the square that \<^verbatim>\<open>_energy\<close>
  and \<^verbatim>\<open>_gradient\<close> apply: for \<open>om = [2]\<close> and the batch \<open>[[0]]\<close> it returns
  \<open>[[[2]]]\<close>, not \<open>[[[4]]]\<close>.
\<close>

theorem HarmonicOscillatorPotential_hessian_not_squared:
  "HarmonicOscillatorPotential_hessian
     \<lparr>parameters = [''omega'' \<mapsto> Vector [2]], G = 1, ndim = 1\<rparr> \<lparr>ncols = 1, rows = [[0]]\<rparr> 0
     = Inr [[[2]]]
   \<and> HarmonicOscillatorPotential_hessian
     \<lparr>parameters = [''omega'' \<mapsto> Vector [2]], G = 1, ndim = 1\<rparr> \<lparr>ncols = 1, rows = [[0]]\<rparr> 0
     \<noteq> Inr [[[2\<^sup>2]]]"
  by (simp add: HarmonicOscillatorPotential_hessian_def np_diag_def)

text \<open>The instance that \<^verbatim>\<open>_setup_potential\<close> leaves when \<^verbatim>\<open>omega\<close> is among the parameters.\<close>

lemma setup_potential_result:
  assumes "ps ''omega'' = Some w"
  shows "HarmonicOscillatorPotential_setup_potential self ps =
           Inr \<lparr>parameters = ps(''omega'' \<mapsto> Vector (atleast_1d w)), G = G self,
                ndim = length (atleast_1d w)\<rparr>"
  using assms
  by (simp add: HarmonicOscillatorPotential_setup_potential_def PotentialBase_setup_potential_def)

text \<open>
  Claim C8, as amended. When the parameters hold \<^verbatim>\<open>omega\<close> (a scalar or a sequence),
  \<^verbatim>\<open>_setup_potential\<close> succeeds, stores \<^verbatim>\<open>omega\<close> coerced to a sequence and sets
  \<^verbatim>\<open>ndim\<close> to the length of that sequence; the length is at least 1 exactly when the
  input is not the empty sequence. Running the setup again on the resulting instance,
  with the same input or with the stored parameters, gives the same instance. The
  evaluation methods are functions of the instance and return no instance, so
  \<^verbatim>\<open>ndim = len(omega)\<close> stays true after them.
\<close>

theorem HarmonicOscillatorPotential_setup_potential_ndim:
  assumes "ps ''omega'' = Some w"
  shows "\<exists>self'. HarmonicOscillatorPotential_setup_potential self ps = Inr self'
           \<and> parameters self' ''omega'' = Some (Vector (atleast_1d w))
           \<and> ndim self' = length (atleast_1d w)
           \<and> (1 \<le> ndim self' \<longleftrightarrow> w \<noteq> Vector [])
           \<and> HarmonicOscillatorPotential_setup_potential self' ps = Inr self'
           \<and> HarmonicOscillatorPotential_setup_potential self' (parameters self') = Inr self'"
proof -
  let ?s = "\<lparr>parameters = ps(''omega'' \<mapsto> Vector (atleast_1d w)), G = G self,
                ndim = length (atleast_1d w)\<rparr>"
  have 1: "HarmonicOscillatorPotential_setup_potential self ps = Inr ?s"
    using assms by (rule setup_potential_result)
  have 2: "HarmonicOscillatorPotential_setup_potential ?s ps = Inr ?s"
    using setup_potential_result [of ps w ?s] assms by simp
  have 3: "HarmonicOscillatorPotential_setup_potential ?s (parameters ?s) = Inr ?s"
    using setup_potential_result [of "parameters ?s" "Vector (atleast_1d w)" ?s] by simp
  have 4: "1 \<le> length (atleast_1d w) \<longleftrightarrow> w \<noteq> Vector []"
    by (cases w) (simp_all add: Suc_le_eq)
  show ?thesis using 1 2 3 4 by simp
qed

theorem HarmonicOscillatorPotential_setup_potential_ndim_witness:
  "[''omega'' \<mapsto> Scalar 3] ''omega'' = Some (Scalar 3)
   \<and> HarmonicOscillatorPotential_setup_potential \<lparr>parameters = Map.empty, G = 1, ndim = 0\<rparr>
        [''omega'' \<mapsto> Scalar 3]
      = Inr \<lparr>parameters = [''omega'' \<mapsto> Vector [3]], G = 1, ndim = 1\<rparr>
   \<and> HarmonicOscillatorPotential_setup_potential
        \<lparr>parameters = [''omega'' \<mapsto> Vector [3]], G = 1, ndim = 1\<rparr> [''omega'' \<mapsto> Scalar 3]
      = Inr \<lparr>parameters = [''omega'' \<mapsto> Vector [3]], G = 1, ndim = 1\<rparr>"
proof -
  from HarmonicOscillatorPotential_setup_potential_ndim
    [of "[''omega'' \<mapsto> Scalar 3]" "Scalar 3" "\<lparr>parameters = Map.empty, G = 1, ndim = 0\<rparr>"]
  obtain self' where
    s: "HarmonicOscillatorPotential_setup_potential \<lparr>parameters = Map.empty, G = 1, ndim = 0\<rparr>
          [''omega'' \<mapsto> Scalar 3] = Inr self'"
    and i: "HarmonicOscillatorPotential_setup_potential self' [''omega'' \<mapsto> Scalar 3] = Inr self'"
    by auto
  have "HarmonicOscillatorPotential_setup_potential \<lparr>parameters = Map.empty, G = 1, ndim = 0\<rparr>
          [''omega'' \<mapsto> Scalar 3] = Inr \<lparr>parameters = [''omega'' \<mapsto> Vector [3]], G = 1, ndim = 1\<rparr>"
    by (simp add: HarmonicOscillatorPotential_setup_potential_def PotentialBase_setup_potential_def)
  with s i show ?thesis by simp
qed

text \<open>
  Claim C8 as stated promises a sequence of length at least 1. For the empty sequence
  the setup succeeds with \<^verbatim>\<open>ndim = 0\<close>.
\<close>

theorem HarmonicOscillatorPotential_setup_potential_empty_omega:
  "HarmonicOscillatorPotential_setup_potential \<lparr>parameters = Map.empty, G = 1, ndim = 0\<rparr>
     [''omega'' \<mapsto> Vector []]
   = Inr \<lparr>parameters = [''omega'' \<mapsto> Vector []], G = 1, ndim = 0\<rparr>
   \<and> \<not> 1 \<le> ndim \<lparr>parameters = [''omega'' \<mapsto> Vector []], G = 1, ndim = 0\<rparr>
   \<and> \<not> 1 \<le> length (atleast_1d (Vector []))"
  by (simp add: HarmonicOscillatorPotential_setup_potential_def PotentialBase_setup_potential_def)

section \<open>Properties of KuzminPotential\<close>

lemma unpack3_rows: "rows q = [x, y, z] \<Longrightarrow> unpack3 q = Inr (x, y, z)"
  by (simp add: unpack3_def)

lemma Kuzmin_r2_nonneg: "0 \<le> Kuzmin_r2 a x y z"
  by (simp add: Kuzmin_r2_def)

lemma Kuzmin_r2_minus: "Kuzmin_r2 a x y (- z) = Kuzmin_r2 a x y z"
  by (simp add: Kuzmin_r2_def)

lemma np_multiply_minus: "np_multiply f (- v) = np_negative (np_multiply f v)"
  by (cases f) auto

text \<open>The methods on an instance that has both parameters and a batch of three rows.\<close>

lemma KuzminPotential_energy_samples:
  assumes "rows q = [x, y, z]"
    and "parameters self ''m'' = Some m"
    and "parameters self ''a'' = Some a"
  shows "KuzminPotential_energy self q t =
           Inr (map (\<lambda>k. np_divide (- G self * m) (sqrt (Kuzmin_r2 a (x ! k) (y ! k) (z ! k))))
                  [0..<ncols q])"
  using assms by (simp add: KuzminPotential_energy_def unpack3_rows)

lemma KuzminPotential_fac_samples:
  assumes "rows q = [x, y, z]"
    and "parameters self ''m'' = Some m"
    and "parameters self ''a'' = Some a"
  shows "KuzminPotential_fac self q =
           Inr (map (\<lambda>k. np_divide (G self * m) (Kuzmin_r2 a (x ! k) (y ! k) (z ! k) powr 1.5))
                  [0..<ncols q])"
  using assms by (simp add: KuzminPotential_fac_def unpack3_rows)

lemma KuzminPotential_gradient_samples:
  assumes "rows q = [x, y, z]"
    and "parameters self ''m'' = Some m"
    and "parameters self ''a'' = Some a"
  shows "KuzminPotential_gradient self q t =
           Inr (map (\<lambda>r. map (\<lambda>k. np_multiply
                               (np_divide (G self * m) (Kuzmin_r2 a (x ! k) (y ! k) (z ! k) powr 1.5))
                               (r ! k)) [0..<ncols q]) [x, y, z])"
  using assms KuzminPotential_fac_samples [OF assms]
  by (simp add: KuzminPotential_gradient_def)

text \<open>
  With both parameters present the real-valued energy of a sample is the quotient read
  in the reals (where the sum under the root is zero, both sides are 0).
\<close>

lemma KuzminPotential_energy_value_total:
  assumes "parameters self ''m'' = Some m"
    and "parameters self ''a'' = Some a"
  shows "KuzminPotential_energy_value self x y z = - G self * m / sqrt (Kuzmin_r2 a x y z)"
  using assms
  by (simp add: KuzminPotential_energy_value_def KuzminPotential_energy_def unpack3_def
      np_divide_def)



text \<open>
  Claim C7. With \<open>G = 1\<close>, \<open>m = 1\<close>, \<open>a = 0\<close> and the single sample \<open>(0, 0, 0)\<close> the
  divisor \<open>sqrt (x\<^sup>2 + y\<^sup>2 + (a + \<bar>z\<bar>)\<^sup>2)\<close> of \<^verbatim>\<open>_energy\<close> is zero, the division takes
  its zero-divisor branch, and the result is the negative infinity, not a finite number.
\<close>

theorem KuzminPotential_energy_singular:
  "sqrt (Kuzmin_r2 0 0 0 0) = 0
   \<and> np_divide (- 1 * 1) (sqrt (Kuzmin_r2 0 0 0 0)) = NegInf
   \<and> KuzminPotential_energy \<lparr>parameters = [''m'' \<mapsto> 1, ''a'' \<mapsto> 0], G = 1, ndim = 3\<rparr>
        \<lparr>ncols = 1, rows = [[0], [0], [0]]\<rparr> 0 = Inr [NegInf]"
  by (simp add: KuzminPotential_energy_def unpack3_def Kuzmin_r2_def np_divide_def)

text \<open>
  Claim C6. Negating \<open>z\<close> in every sample leaves the result of \<^verbatim>\<open>_energy\<close> and the
  \<open>x\<close> and \<open>y\<close> rows of the result of \<^verbatim>\<open>_gradient\<close> unchanged, and negates the \<open>z\<close> row
  of the gradient.
\<close>

theorem KuzminPotential_negate_z:
  assumes "rows q = [x, y, z]"
    and "wf_ndarray2 q"
    and "parameters self ''m'' = Some m"
    and "parameters self ''a'' = Some a"
  shows "\<exists>es gx gy gz.
           KuzminPotential_energy self q t = Inr es
           \<and> KuzminPotential_energy self (q\<lparr>rows := [x, y, map uminus z]\<rparr>) t = Inr es
           \<and> KuzminPotential_gradient self q t = Inr [gx, gy, gz]
           \<and> KuzminPotential_gradient self (q\<lparr>rows := [x, y, map uminus z]\<rparr>) t
               = Inr [gx, gy, map np_negative gz]"
proof -
  let ?q' = "q\<lparr>rows := [x, y, map uminus z]\<rparr>"
  have lz: "length z = ncols q"
    using assms(1,2) by (simp add: wf_ndarray2_def)
  have r': "rows ?q' = [x, y, map uminus z]" by simp
  have e: "KuzminPotential_energy self ?q' t = KuzminPotential_energy self q t"
    using KuzminPotential_energy_samples [OF assms(1,3,4), of t]
      KuzminPotential_energy_samples [OF r', of self m a t] assms(3,4) lz
    by (simp add: Kuzmin_r2_minus)
  have g: "KuzminPotential_gradient self q t =
        Inr [map (\<lambda>k. np_multiply (np_divide (G self * m) (Kuzmin_r2 a (x ! k) (y ! k) (z ! k) powr 1.5)) (x ! k)) [0..<ncols q],
             map (\<lambda>k. np_multiply (np_divide (G self * m) (Kuzmin_r2 a (x ! k) (y ! k) (z ! k) powr 1.5)) (y ! k)) [0..<ncols q],
             map (\<lambda>k. np_multiply (np_divide (G self * m) (Kuzmin_r2 a (x ! k) (y ! k) (z ! k) powr 1.5)) (z ! k)) [0..<ncols q]]"
    using KuzminPotential_gradient_samples [OF assms(1,3,4), of t] by simp
  have g': "KuzminPotential_gradient self ?q' t =
        Inr [map (\<lambda>k. np_multiply (np_divide (G self * m) (Kuzmin_r2 a (x ! k) (y ! k) (z ! k) powr 1.5)) (x ! k)) [0..<ncols q],
             map (\<lambda>k. np_multiply (np_divide (G self * m) (Kuzmin_r2 a (x ! k) (y ! k) (z ! k) powr 1.5)) (y ! k)) [0..<ncols q],
             map np_negative (map (\<lambda>k. np_multiply (np_divide (G self * m) (Kuzmin_r2 a (x ! k) (y ! k) (z ! k) powr 1.5)) (z ! k)) [0..<ncols q])]"
    using KuzminPotential_gradient_samples [OF r', of self m a t] assms(3,4) lz
    by (simp add: Kuzmin_r2_minus np_multiply_minus)
  show ?thesis
    using e g g' KuzminPotential_energy_samples [OF assms(1,3,4), of t] by simp
qed

theorem KuzminPotential_negate_z_witness:
  "rows \<lparr>ncols = 1, rows = [[0], [0], [1]]\<rparr> = [[0], [0], [1]]
   \<and> wf_ndarray2 \<lparr>ncols = 1, rows = [[0], [0], [1]]\<rparr>
   \<and> parameters \<lparr>parameters = [''m'' \<mapsto> 1, ''a'' \<mapsto> 0], G = 1, ndim = 3\<rparr> ''m'' = Some 1
   \<and> parameters \<lparr>parameters = [''m'' \<mapsto> 1, ''a'' \<mapsto> 0], G = 1, ndim = 3\<rparr> ''a'' = Some 0
   \<and> KuzminPotential_energy \<lparr>parameters = [''m'' \<mapsto> 1, ''a'' \<mapsto> 0], G = 1, ndim = 3\<rparr>
        \<lparr>ncols = 1, rows = [[0], [0], [- 1]]\<rparr> 0 = Inr [Finite (- 1)]
   \<and> KuzminPotential_gradient \<lparr>parameters = [''m'' \<mapsto> 1, ''a'' \<mapsto> 0], G = 1, ndim = 3\<rparr>
        \<lparr>ncols = 1, rows = [[0], [0], [- 1]]\<rparr> 0 = Inr [[Finite 0], [Finite 0], [Finite (- 1)]]"
proof -
  let ?self = "\<lparr>parameters = [''m'' \<mapsto> 1, ''a'' \<mapsto> 0 :: real], G = 1, ndim = 3\<rparr>"
  let ?q = "\<lparr>ncols = 1, rows = [[0], [0], [1 :: real]]\<rparr>"
  have wf: "wf_ndarray2 ?q" by (simp add: wf_ndarray2_def)
  have e: "KuzminPotential_energy ?self ?q 0 = Inr [Finite (- 1)]"
    by (simp add: KuzminPotential_energy_def unpack3_def Kuzmin_r2_def np_divide_def)
  have g: "KuzminPotential_gradient ?self ?q 0 = Inr [[Finite 0], [Finite 0], [Finite 1]]"
    by (simp add: KuzminPotential_gradient_def KuzminPotential_fac_def unpack3_def Kuzmin_r2_def
        np_divide_def)
  from KuzminPotential_negate_z [of ?q "[0]" "[0]" "[1]" ?self 1 0 0] wf e g
  show ?thesis using wf by simp
qed

text \<open>
  Read in exact real arithmetic, with \<open>G > 0\<close>, \<open>m > 0\<close> and \<open>a \<ge> 0\<close>, at every sample
  where \<open>x\<^sup>2 + y\<^sup>2 + (a + \<bar>z\<bar>)\<^sup>2\<close> is not zero the energy is a negative number and the
  factor \<^verbatim>\<open>fac\<close> of \<^verbatim>\<open>_gradient\<close> is a positive number. What holds of the binary64
  computation is stated in the section on binary64 arithmetic below.
\<close>

lemma KuzminPotential_exact_signs:
  assumes "0 < G self" and "0 < m" and "0 \<le> a"
    and "parameters self ''m'' = Some m"
    and "parameters self ''a'' = Some a"
    and "rows q = [x, y, z]"
  shows "\<exists>es fac. KuzminPotential_energy self q t = Inr es
           \<and> KuzminPotential_fac self q = Inr fac
           \<and> length es = ncols q \<and> length fac = ncols q
           \<and> (\<forall>k<ncols q. (x ! k)\<^sup>2 + (y ! k)\<^sup>2 + (a + \<bar>z ! k\<bar>)\<^sup>2 \<noteq> 0 \<longrightarrow>
                 (\<exists>e f. es ! k = Finite e \<and> e < 0 \<and> fac ! k = Finite f \<and> 0 < f))"
proof -
  have pos: "0 < G self * m" using assms(1,2) by simp
  have d: "0 < sqrt r" "0 < r powr 1.5" if "r \<noteq> 0" "0 \<le> r" for r :: real
    using that by simp_all
  have neg: "- (G self * m) / sqrt r < 0" if "r \<noteq> 0" "0 \<le> r" for r :: real
    using pos d(1) [OF that] by (simp add: divide_neg_pos)
  have fpos: "0 < G self * m / r powr 1.5" if "r \<noteq> 0" "0 \<le> r" for r :: real
    using pos d(2) [OF that] by simp
  have r0: "0 \<le> (x ! k)\<^sup>2 + (y ! k)\<^sup>2 + (a + \<bar>z ! k\<bar>)\<^sup>2" for k
    by simp
  show ?thesis
    using KuzminPotential_energy_samples [OF assms(6,4,5), of t]
      KuzminPotential_fac_samples [OF assms(6,4,5)] neg fpos r0
    by (simp add: np_divide_def Kuzmin_r2_def)
qed

subsection \<open>The partial derivatives of the Kuzmin energy\<close>

lemma powr_three_halves: "0 < r \<Longrightarrow> r powr 1.5 = r * sqrt r"
proof -
  assume r: "0 < r"
  have "r powr 1.5 = r powr (1 + 1 / 2)" by simp
  also have "\<dots> = r powr 1 * r powr (1 / 2)" by (rule powr_add)
  also have "\<dots> = r * sqrt r" using r by (simp add: powr_half_sqrt)
  finally show ?thesis .
qed

lemma inv_sqrt_deriv_algebra:
  fixes c w s b R :: real
  shows "c * (inverse w * (s * b)) / R = c * s * b / (R * w)"
  by (simp add: divide_inverse)

lemma inv_sqrt_deriv:
  fixes c k a s :: real
  assumes "0 < (a + s * u)\<^sup>2 + k"
  shows "((\<lambda>v. - c / sqrt ((a + s * v)\<^sup>2 + k)) has_real_derivative
            c * s * (a + s * u) / (((a + s * u)\<^sup>2 + k) * sqrt ((a + s * u)\<^sup>2 + k))) (at u)"
proof -
  have "((\<lambda>v. - c / sqrt ((a + s * v)\<^sup>2 + k)) has_real_derivative
          c * (inverse (sqrt ((a + s * u)\<^sup>2 + k)) * (s * (a + s * u))) / ((a + s * u)\<^sup>2 + k)) (at u)"
    using assms by (auto intro!: derivative_eq_intros)
  then show ?thesis
    by (simp only: inv_sqrt_deriv_algebra)
qed

lemma Kuzmin_r2_pos: "Kuzmin_r2 a x y z \<noteq> 0 \<Longrightarrow> 0 < Kuzmin_r2 a x y z"
  using Kuzmin_r2_nonneg [of a x y z] by simp

text \<open>
  Where the sum under the root is not zero, the derivatives of the energy in \<open>x\<close> and in
  \<open>y\<close> are \<open>fac * x\<close> and \<open>fac * y\<close>, with \<open>fac = G * m / (x\<^sup>2 + y\<^sup>2 + (a + \<bar>z\<bar>)\<^sup>2) powr 1.5\<close>;
  the derivative in \<open>z\<close>, at \<open>z \<noteq> 0\<close>, is \<open>fac * ((a + \<bar>z\<bar>) * sgn z)\<close>.
\<close>

lemma KuzminPotential_energy_dx:
  assumes "parameters self ''m'' = Some m"
    and "parameters self ''a'' = Some a"
    and "Kuzmin_r2 a x y z \<noteq> 0"
  shows "((\<lambda>x'. KuzminPotential_energy_value self x' y z) has_real_derivative
            G self * m / Kuzmin_r2 a x y z powr 1.5 * x) (at x)"
proof -
  let ?k = "y\<^sup>2 + (a + \<bar>z\<bar>)\<^sup>2"
  have r: "Kuzmin_r2 a v y z = (0 + 1 * v)\<^sup>2 + ?k" for v
    by (simp add: Kuzmin_r2_def)
  have pos: "0 < (0 + 1 * x)\<^sup>2 + ?k"
    using Kuzmin_r2_pos [OF assms(3)] by (simp only: r)
  have f: "(\<lambda>x'. KuzminPotential_energy_value self x' y z)
             = (\<lambda>v. - (G self * m) / sqrt ((0 + 1 * v)\<^sup>2 + ?k))"
    using KuzminPotential_energy_value_total [OF assms(1,2)] by (simp only: r) simp
  have v: "G self * m / Kuzmin_r2 a x y z powr 1.5 * x
             = G self * m * 1 * (0 + 1 * x) / (((0 + 1 * x)\<^sup>2 + ?k) * sqrt ((0 + 1 * x)\<^sup>2 + ?k))"
    using powr_three_halves [OF Kuzmin_r2_pos [OF assms(3)]] by (simp add: r)
  show ?thesis
    unfolding f v by (rule inv_sqrt_deriv [OF pos])
qed

lemma KuzminPotential_energy_dy:
  assumes "parameters self ''m'' = Some m"
    and "parameters self ''a'' = Some a"
    and "Kuzmin_r2 a x y z \<noteq> 0"
  shows "((\<lambda>y'. KuzminPotential_energy_value self x y' z) has_real_derivative
            G self * m / Kuzmin_r2 a x y z powr 1.5 * y) (at y)"
proof -
  let ?k = "x\<^sup>2 + (a + \<bar>z\<bar>)\<^sup>2"
  have r: "Kuzmin_r2 a x v z = (0 + 1 * v)\<^sup>2 + ?k" for v
    by (simp add: Kuzmin_r2_def)
  have pos: "0 < (0 + 1 * y)\<^sup>2 + ?k"
    using Kuzmin_r2_pos [OF assms(3)] by (simp only: r)
  have f: "(\<lambda>y'. KuzminPotential_energy_value self x y' z)
             = (\<lambda>v. - (G self * m) / sqrt ((0 + 1 * v)\<^sup>2 + ?k))"
    using KuzminPotential_energy_value_total [OF assms(1,2)] by (simp only: r) simp
  have v: "G self * m / Kuzmin_r2 a x y z powr 1.5 * y
             = G self * m * 1 * (0 + 1 * y) / (((0 + 1 * y)\<^sup>2 + ?k) * sqrt ((0 + 1 * y)\<^sup>2 + ?k))"
    using powr_three_halves [OF Kuzmin_r2_pos [OF assms(3)]] by (simp add: r)
  show ?thesis
    unfolding f v by (rule inv_sqrt_deriv [OF pos])
qed

lemma KuzminPotential_energy_dz:
  assumes "parameters self ''m'' = Some m"
    and "parameters self ''a'' = Some a"
    and "Kuzmin_r2 a x y z \<noteq> 0"
    and "z \<noteq> 0"
  shows "((\<lambda>z'. KuzminPotential_energy_value self x y z') has_real_derivative
            G self * m / Kuzmin_r2 a x y z powr 1.5 * ((a + \<bar>z\<bar>) * sgn z)) (at z)"
proof -
  let ?k = "x\<^sup>2 + y\<^sup>2"
  let ?s = "sgn z"
  let ?S = "if 0 < z then {0<..} else {..<0 :: real}"
  have s: "?s * z = \<bar>z\<bar>" by (simp add: sgn_if)
  have r: "Kuzmin_r2 a x y z = (a + ?s * z)\<^sup>2 + ?k"
    by (simp add: Kuzmin_r2_def s)
  have r': "Kuzmin_r2 a x y v = (a + ?s * v)\<^sup>2 + ?k" if "v \<in> ?S" for v
    using that assms(4) by (auto simp: Kuzmin_r2_def sgn_if split: if_splits)
  have pos: "0 < (a + ?s * z)\<^sup>2 + ?k"
    using Kuzmin_r2_pos [OF assms(3)] by (simp only: r)
  have v: "G self * m / Kuzmin_r2 a x y z powr 1.5 * ((a + \<bar>z\<bar>) * sgn z)
             = G self * m * ?s * (a + ?s * z) / (((a + ?s * z)\<^sup>2 + ?k) * sqrt ((a + ?s * z)\<^sup>2 + ?k))"
    using powr_three_halves [OF Kuzmin_r2_pos [OF assms(3)]] unfolding r s by simp
  have d: "((\<lambda>v. - (G self * m) / sqrt ((a + ?s * v)\<^sup>2 + ?k)) has_real_derivative
             G self * m / Kuzmin_r2 a x y z powr 1.5 * ((a + \<bar>z\<bar>) * sgn z)) (at z)"
    unfolding v by (rule inv_sqrt_deriv [OF pos])
  show ?thesis
  proof (rule has_field_derivative_transform_within_open [OF d, of ?S])
    show "open ?S" by simp
    show "z \<in> ?S" using assms(4) by simp
    show "- (G self * m) / sqrt ((a + ?s * v)\<^sup>2 + ?k) = KuzminPotential_energy_value self x y v"
      if "v \<in> ?S" for v
      using KuzminPotential_energy_value_total [OF assms(1,2), of x y v] r' [OF that] by simp
  qed
qed

text \<open>
  The gradient that the method returns for a single sample, and when its \<open>z\<close> component
  \<open>fac * z\<close> is the derivative of the energy in \<open>z\<close>: exactly when \<open>G * m = 0\<close> or \<open>a = 0\<close>.
\<close>

lemma KuzminPotential_gradient_single:
  assumes "parameters self ''m'' = Some m"
    and "parameters self ''a'' = Some a"
    and "Kuzmin_r2 a x y z \<noteq> 0"
  shows "KuzminPotential_gradient self \<lparr>ncols = 1, rows = [[x], [y], [z]]\<rparr> t =
           Inr [[Finite (G self * m / Kuzmin_r2 a x y z powr 1.5 * x)],
                [Finite (G self * m / Kuzmin_r2 a x y z powr 1.5 * y)],
                [Finite (G self * m / Kuzmin_r2 a x y z powr 1.5 * z)]]"
proof -
  have "Kuzmin_r2 a x y z powr 1.5 \<noteq> 0"
    using assms(3) by simp
  then show ?thesis
    using assms(1,2)
    by (simp add: KuzminPotential_gradient_def KuzminPotential_fac_def unpack3_def np_divide_def)
qed

lemma KuzminPotential_gradient_z_derivative_iff:
  assumes "parameters self ''m'' = Some m"
    and "parameters self ''a'' = Some a"
    and "Kuzmin_r2 a x y z \<noteq> 0"
    and "z \<noteq> 0"
  shows "((\<lambda>z'. KuzminPotential_energy_value self x y z') has_real_derivative
            G self * m / Kuzmin_r2 a x y z powr 1.5 * z) (at z)
         \<longleftrightarrow> G self * m = 0 \<or> a = 0"
proof -
  let ?f = "G self * m / Kuzmin_r2 a x y z powr 1.5"
  have d: "((\<lambda>z'. KuzminPotential_energy_value self x y z') has_real_derivative
              ?f * ((a + \<bar>z\<bar>) * sgn z)) (at z)"
    using assms by (rule KuzminPotential_energy_dz)
  have p: "Kuzmin_r2 a x y z powr 1.5 \<noteq> 0"
    using assms(3) by simp
  have e: "?f * z = ?f * ((a + \<bar>z\<bar>) * sgn z) \<longleftrightarrow> G self * m = 0 \<or> a = 0"
  proof -
    have "z = (a + \<bar>z\<bar>) * sgn z \<longleftrightarrow> a = 0"
      using assms(4) by (auto simp: sgn_if)
    then show ?thesis using p by auto
  qed
  show ?thesis
  proof
    assume "((\<lambda>z'. KuzminPotential_energy_value self x y z') has_real_derivative ?f * z) (at z)"
    then have "?f * z = ?f * ((a + \<bar>z\<bar>) * sgn z)" using d by (rule DERIV_unique)
    then show "G self * m = 0 \<or> a = 0" by (simp only: e)
  next
    assume "G self * m = 0 \<or> a = 0"
    then have "?f * z = ?f * ((a + \<bar>z\<bar>) * sgn z)" by (simp only: e)
    with d show "((\<lambda>z'. KuzminPotential_energy_value self x y z') has_real_derivative ?f * z) (at z)"
      by (simp only:)
  qed
qed

text \<open>
  Claim C2 says that the vector \<open>fac * (x, y, z)\<close> returned by \<^verbatim>\<open>_gradient\<close> is the
  vector of the partial derivatives of the energy. Its \<open>z\<close> component is \<open>fac * z\<close>,
  while the derivative of the energy in \<open>z\<close> is \<open>fac * (a + \<bar>z\<bar>) * sgn z\<close>. With
  \<open>G = m = 1\<close>, \<open>a = 1/2\<close> and the sample \<open>(0, 0, 1/2)\<close> the method returns \<open>1/2\<close> for the
  \<open>z\<close> component; the derivative of the energy in \<open>z\<close> there is \<open>1\<close>, and not \<open>1/2\<close>.
\<close>

theorem KuzminPotential_gradient_z_not_derivative:
  "KuzminPotential_gradient \<lparr>parameters = [''m'' \<mapsto> 1, ''a'' \<mapsto> 1 / 2], G = 1, ndim = 3\<rparr>
     \<lparr>ncols = 1, rows = [[0], [0], [1 / 2]]\<rparr> 0 = Inr [[Finite 0], [Finite 0], [Finite (1 / 2)]]
   \<and> ((\<lambda>z. KuzminPotential_energy_value
              \<lparr>parameters = [''m'' \<mapsto> 1, ''a'' \<mapsto> 1 / 2], G = 1, ndim = 3\<rparr> 0 0 z)
        has_real_derivative 1) (at (1 / 2))
   \<and> \<not> ((\<lambda>z. KuzminPotential_energy_value
              \<lparr>parameters = [''m'' \<mapsto> 1, ''a'' \<mapsto> 1 / 2], G = 1, ndim = 3\<rparr> 0 0 z)
        has_real_derivative 1 / 2) (at (1 / 2))"
proof -
  let ?self = "\<lparr>parameters = [''m'' \<mapsto> 1, ''a'' \<mapsto> 1 / 2 :: real], G = 1, ndim = 3\<rparr>"
  have g: "KuzminPotential_gradient ?self \<lparr>ncols = 1, rows = [[0], [0], [1 / 2]]\<rparr> 0
             = Inr [[Finite 0], [Finite 0], [Finite (1 / 2)]]"
    by (simp add: KuzminPotential_gradient_def KuzminPotential_fac_def unpack3_def Kuzmin_r2_def
        np_divide_def)
  have v: "KuzminPotential_energy_value ?self 0 0 z = - 1 / (1 / 2 + z)" if "0 < z" for z
  proof -
    have "Kuzmin_r2 (1 / 2) 0 0 z = (1 / 2 + z)\<^sup>2"
      using that by (simp add: Kuzmin_r2_def)
    then show ?thesis
      using KuzminPotential_energy_value_total [of ?self 1 "1 / 2" 0 0 z] that by simp
  qed
  have d: "((\<lambda>z :: real. - 1 / (1 / 2 + z)) has_real_derivative 1) (at (1 / 2))"
    by (auto intro!: derivative_eq_intros)
  have one: "((\<lambda>z. KuzminPotential_energy_value ?self 0 0 z) has_real_derivative 1) (at (1 / 2))"
  proof (rule has_field_derivative_transform_within_open [OF d, of "{0<..}"])
    show "open {0 :: real <..}" by simp
    show "1 / 2 \<in> {0 :: real <..}" by simp
    show "\<And>z. z \<in> {0 :: real <..} \<Longrightarrow> - 1 / (1 / 2 + z) = KuzminPotential_energy_value ?self 0 0 z"
      using v by simp
  qed
  have "\<not> ((\<lambda>z. KuzminPotential_energy_value ?self 0 0 z) has_real_derivative 1 / 2) (at (1 / 2))"
  proof
    assume "((\<lambda>z. KuzminPotential_energy_value ?self 0 0 z) has_real_derivative 1 / 2) (at (1 / 2))"
    then have "(1 / 2 :: real) = 1" using one by (rule DERIV_unique)
    then show False by simp
  qed
  with g one show ?thesis by simp
qed

section \<open>Properties of the methods in binary64 arithmetic\<close>

subsection \<open>Rounding\<close>



lemma rne_nonneg: "0 \<le> y \<Longrightarrow> 0 \<le> rne y"
  by (auto simp: rne_def Let_def)


text \<open>Rounding to binary64 is odd, fixes zero and keeps the sign.\<close>

lemma ulp64_pos: "0 < ulp64 x"
  by (simp add: ulp64_def)




lemma round64_nonneg:
  assumes "0 \<le> x"
  shows "round64 x = PosInf \<or> (\<exists>r. round64 x = Finite r \<and> 0 \<le> r)"
proof -
  have "0 \<le> x / ulp64 x" using assms ulp64_pos [of x] by simp
  then have "0 \<le> rne (x / ulp64 x)" by (rule rne_nonneg)
  then have "0 \<le> of_int (rne (x / ulp64 x)) * ulp64 x"
    using ulp64_pos [of x] by simp
  then show ?thesis
    by (auto simp: round64_def Let_def)
qed











subsection \<open>Signs of the operations\<close>

lemma float64_nonneg_round64: "0 \<le> x \<Longrightarrow> float64_nonneg (round64 x)"
  using round64_nonneg [of x] by auto





lemma float64_nonneg_square: "v \<noteq> NaN \<Longrightarrow> float64_nonneg (float64_multiply v v)"
  by (cases v) (simp_all add: float64_nonneg_round64)











lemma float64_nonneg_or_NaN_multiply:
  assumes "float64_nonneg u \<or> u = NaN" and "float64_nonneg v \<or> v = NaN"
  shows "float64_nonneg (float64_multiply u v) \<or> float64_multiply u v = NaN"
  using assms by (cases u; cases v) (auto simp: float64_nonneg_round64)

subsection \<open>Summation in any order\<close>





subsection \<open>The energy of the harmonic oscillator\<close>

text \<open>
  A summand is never negative, and it is zero when the frequency or the coordinate is
  zero and neither square overflows.
\<close>

lemma energy_term_nonneg_or_NaN:
  "float64_nonneg (HarmonicOscillatorPotential_energy_term w x)
   \<or> HarmonicOscillatorPotential_energy_term w x = NaN"
proof -
  have sq: "float64_nonneg (float64_multiply (Finite u) (Finite u))" for u
    by (rule float64_nonneg_square) simp
  have "float64_nonneg (float64_multiply (Finite 0.5) (float64_multiply (Finite w) (Finite w)))
        \<or> float64_multiply (Finite 0.5) (float64_multiply (Finite w) (Finite w)) = NaN"
    by (rule float64_nonneg_or_NaN_multiply) (simp, simp only: sq simp_thms)
  then show ?thesis
    unfolding HarmonicOscillatorPotential_energy_term_def
    by (rule float64_nonneg_or_NaN_multiply) (simp only: sq simp_thms)
qed












subsection \<open>The signs of the Kuzmin energy and factor\<close>





end
